theory Spec2Isabelle
  imports Main "HOL-Library.AList"
begin

section \<open>Bytes\<close>

text \<open>
  A Go \<^verbatim>\<open>string\<close> and a \<^verbatim>\<open>[]byte\<close> are sequences of bytes: here \<^typ>\<open>string\<close>, a list of
  8-bit characters. A \<^verbatim>\<open>[]byte\<close> that may be \<^verbatim>\<open>nil\<close> is a \<^typ>\<open>string option\<close>.
\<close>

definition byte :: "char \<Rightarrow> nat" where
  "byte c = of_char c"

definition isLower :: "char \<Rightarrow> bool" where
  "isLower c = (byte (CHR ''a'') \<le> byte c \<and> byte c \<le> byte (CHR ''z''))"

definition isUpper :: "char \<Rightarrow> bool" where
  "isUpper c = (byte (CHR ''A'') \<le> byte c \<and> byte c \<le> byte (CHR ''Z''))"

definition isDigit :: "char \<Rightarrow> bool" where
  "isDigit c = (byte (CHR ''0'') \<le> byte c \<and> byte c \<le> byte (CHR ''9''))"

definition toUpper :: "char \<Rightarrow> char" where
  "toUpper c = char_of (byte c - 32)"

definition toLower :: "char \<Rightarrow> char" where
  "toLower c = char_of (byte c + 32)"

definition HasPrefix :: "string \<Rightarrow> string \<Rightarrow> bool" where
  "HasPrefix s p = (take (length p) s = p)"

definition HasSuffix :: "string \<Rightarrow> string \<Rightarrow> bool" where
  "HasSuffix s p = (length p \<le> length s \<and> drop (length s - length p) s = p)"

section \<open>encoding/json: writing\<close>

text \<open>
  What \<^verbatim>\<open>json.Marshal\<close> reads of a Go value: its JSON tree, with the fields of a struct
  and the keys of a map in the order they are written. A number is kept as its rendered
  literal. \<open>JUnsupported\<close> stands for a value \<^verbatim>\<open>json.Marshal\<close> rejects (a channel, a
  function, a NaN), named by the message of the error.
\<close>

datatype json =
    JNull
  | JBool bool
  | JNumber string
  | JString string
  | JArray "json list"
  | JObject "(string \<times> json) list"
  | JUnsupported string

text \<open>
  \<^verbatim>\<open>utf8.DecodeRuneInString\<close>: the code point and the width of the first rune of a
  string; an invalid encoding is \<open>(RuneError, 1)\<close>. \<open>utf8_first\<close> is the table
  \<^verbatim>\<open>first\<close> with \<^verbatim>\<open>acceptRanges\<close>: the width and the range of the second byte for a
  leading byte of a multi-byte encoding.
\<close>

definition RuneError :: nat where
  "RuneError = 0xFFFD"

definition utf8_first :: "nat \<Rightarrow> (nat \<times> nat \<times> nat) option" where
  "utf8_first b =
     (if b < 0xC2 then None
      else if b \<le> 0xDF then Some (2, 0x80, 0xBF)
      else if b = 0xE0 then Some (3, 0xA0, 0xBF)
      else if b \<le> 0xEC then Some (3, 0x80, 0xBF)
      else if b = 0xED then Some (3, 0x80, 0x9F)
      else if b \<le> 0xEF then Some (3, 0x80, 0xBF)
      else if b = 0xF0 then Some (4, 0x90, 0xBF)
      else if b \<le> 0xF3 then Some (4, 0x80, 0xBF)
      else if b = 0xF4 then Some (4, 0x80, 0x8F)
      else None)"

definition continuation :: "nat \<Rightarrow> bool" where
  "continuation b = (0x80 \<le> b \<and> b \<le> 0xBF)"

definition DecodeRuneInString :: "string \<Rightarrow> nat \<times> nat" where
  "DecodeRuneInString s =
     (case map byte s of
        [] \<Rightarrow> (RuneError, 0)
      | s0 # rest \<Rightarrow>
          (if s0 < 0x80 then (s0, 1)
           else case utf8_first s0 of
             None \<Rightarrow> (RuneError, 1)
           | Some (sz, lo, hi) \<Rightarrow>
               (if length s < sz then (RuneError, 1)
                else case rest of
                  [] \<Rightarrow> (RuneError, 1)
                | s1 # rest1 \<Rightarrow>
                    (if s1 < lo \<or> hi < s1 then (RuneError, 1)
                     else if sz \<le> 2 then ((s0 mod 32) * 64 + s1 mod 64, 2)
                     else case rest1 of
                       [] \<Rightarrow> (RuneError, 1)
                     | s2 # rest2 \<Rightarrow>
                         (if \<not> continuation s2 then (RuneError, 1)
                          else if sz \<le> 3 then
                            ((s0 mod 16) * 4096 + (s1 mod 64) * 64 + s2 mod 64, 3)
                          else case rest2 of
                            [] \<Rightarrow> (RuneError, 1)
                          | s3 # _ \<Rightarrow>
                              (if \<not> continuation s3 then (RuneError, 1)
                               else ((s0 mod 8) * 262144 + (s1 mod 64) * 4096
                                     + (s2 mod 64) * 64 + s3 mod 64, 4)))))))"

text \<open>
  \<^verbatim>\<open>appendString\<close> with \<^verbatim>\<open>escapeHTML\<close> set, as \<^verbatim>\<open>json.Marshal\<close> calls it.
  \<open>htmlSafeSet\<close> is the table of the ASCII bytes copied as they are: every byte from the
  space on but the double quote, the backslash and the three HTML characters.
\<close>

definition backslash :: char where
  "backslash = CHR 0x5C"

definition htmlSafeSet :: "char \<Rightarrow> bool" where
  \<open>htmlSafeSet b = (0x20 \<le> byte b \<and> byte b < 0x80
     \<and> b \<noteq> CHR ''"'' \<and> b \<noteq> CHR ''&'' \<and> b \<noteq> CHR ''<'' \<and> b \<noteq> CHR ''>'' \<and> b \<noteq> backslash)\<close>

definition hex :: "nat \<Rightarrow> char" where
  "hex n = ''0123456789abcdef'' ! (n mod 16)"

definition escapeByte :: "char \<Rightarrow> string" where
  \<open>escapeByte b =
     (if b = backslash \<or> b = CHR ''"'' then [backslash, b]
      else if b = CHR 0x08 then [backslash, CHR ''b'']
      else if b = CHR 0x0C then [backslash, CHR ''f'']
      else if b = CHR 0x0A then [backslash, CHR ''n'']
      else if b = CHR 0x0D then [backslash, CHR ''r'']
      else if b = CHR 0x09 then [backslash, CHR ''t'']
      else [backslash, CHR ''u'', CHR ''0'', CHR ''0'', hex (byte b div 16), hex (byte b mod 16)])\<close>

fun appendString_loop :: "string \<Rightarrow> string" where
  "appendString_loop [] = []"
| "appendString_loop (b # src) =
     (if byte b < 0x80 then
        (if htmlSafeSet b then [b] else escapeByte b) @ appendString_loop src
      else case DecodeRuneInString (take 4 (b # src)) of
        (c, n) \<Rightarrow>
          if c = RuneError \<and> n = 1 then
            backslash # ''ufffd'' @ appendString_loop src
          else if c = 0x2028 \<or> c = 0x2029 then
            backslash # ''u202'' @ [hex (c mod 16)] @ appendString_loop (drop (n - 1) src)
          else
            b # take (n - 1) src @ appendString_loop (drop (n - 1) src))"

definition appendString :: "string \<Rightarrow> string" where
  \<open>appendString src = ''"'' @ appendString_loop src @ ''"''\<close>

text \<open>
  The encoder: a string is quoted by \<open>appendString\<close>, an array and an object write their
  members in order, and the first value that cannot be encoded is the error of the call.
\<close>

fun json_Marshal :: "json \<Rightarrow> string + string"
  and json_Marshal_elems :: "json list \<Rightarrow> string + string"
  and json_Marshal_fields :: "(string \<times> json) list \<Rightarrow> string + string"
where
  "json_Marshal JNull = Inr ''null''"
| "json_Marshal (JBool b) = Inr (if b then ''true'' else ''false'')"
| "json_Marshal (JNumber n) = Inr n"
| "json_Marshal (JString s) = Inr (appendString s)"
| "json_Marshal (JArray xs) =
     (case json_Marshal_elems xs of Inl err \<Rightarrow> Inl err | Inr s \<Rightarrow> Inr (''['' @ s @ '']''))"
| "json_Marshal (JObject fs) =
     (case json_Marshal_fields fs of Inl err \<Rightarrow> Inl err | Inr s \<Rightarrow> Inr (''{'' @ s @ ''}''))"
| "json_Marshal (JUnsupported t) = Inl (''json: unsupported type: '' @ t)"
| "json_Marshal_elems [] = Inr []"
| "json_Marshal_elems (x # xs) =
     (case json_Marshal x of
        Inl err \<Rightarrow> Inl err
      | Inr s \<Rightarrow>
          (case json_Marshal_elems xs of
             Inl err \<Rightarrow> Inl err
           | Inr t \<Rightarrow> Inr (if xs = [] then s else s @ '','' @ t)))"
| "json_Marshal_fields [] = Inr []"
| "json_Marshal_fields ((k, v) # fs) =
     (case json_Marshal v of
        Inl err \<Rightarrow> Inl err
      | Inr s \<Rightarrow>
          (case json_Marshal_fields fs of
             Inl err \<Rightarrow> Inl err
           | Inr t \<Rightarrow> Inr (appendString k @ '':'' @ (if fs = [] then s else s @ '','' @ t))))"

section \<open>path: Clean and Join\<close>

text \<open>
  \<^verbatim>\<open>path.Clean\<close> reads its argument one path element at a time: an empty element and
  \<open>.\<close> are dropped, \<open>..\<close> removes the last element written where there is one to remove,
  is dropped at the root and is written on a relative path, and any other element is
  written. \<open>split_slash\<close> gives the elements the loop reads; \<open>clean_elems\<close> is the loop,
  with the elements written so far, last first.
\<close>

fun split_slash :: "string \<Rightarrow> string list" where
  "split_slash [] = [[]]"
| "split_slash (c # cs) =
     (if c = CHR ''/'' then [] # split_slash cs
      else case split_slash cs of
        [] \<Rightarrow> [[c]]
      | e # es \<Rightarrow> (c # e) # es)"

fun join_slash :: "string list \<Rightarrow> string" where
  "join_slash [] = []"
| "join_slash [e] = e"
| "join_slash (e # es) = e @ ''/'' @ join_slash es"

fun clean_elems :: "bool \<Rightarrow> string list \<Rightarrow> string list \<Rightarrow> string list" where
  "clean_elems rooted [] out = rev out"
| "clean_elems rooted (e # es) out =
     (if e = [] \<or> e = ''.'' then clean_elems rooted es out
      else if e = ''..'' then
        (case out of
           [] \<Rightarrow> clean_elems rooted es (if rooted then [] else [''..''])
         | w # ws \<Rightarrow> clean_elems rooted es (if w = ''..'' then ''..'' # out else ws))
      else clean_elems rooted es (e # out))"

definition path_Clean :: "string \<Rightarrow> string" where
  "path_Clean path =
     (if path = [] then ''.''
      else
        let rooted = (hd path = CHR ''/'');
            out = join_slash (clean_elems rooted (split_slash path) [])
        in if rooted then CHR ''/'' # out
           else if out = [] then ''.''
           else out)"

text \<open>
  \<^verbatim>\<open>path.Join\<close>: nothing for elements that are all empty; otherwise the elements from
  the first non-empty one on, separated by slashes, cleaned.
\<close>

fun join_buf :: "string \<Rightarrow> string list \<Rightarrow> string" where
  "join_buf buf [] = buf"
| "join_buf buf (e # elem) =
     join_buf (if buf \<noteq> [] \<or> e \<noteq> [] then (if buf \<noteq> [] then buf @ ''/'' else buf) @ e else buf) elem"

definition path_Join :: "string list \<Rightarrow> string" where
  "path_Join elem = (if concat elem = [] then [] else path_Clean (join_buf [] elem))"

section \<open>net/url and net/http\<close>

text \<open>
  The URL type of \<^verbatim>\<open>net/url\<close> is a type parameter \<open>'u\<close> of the model, and the functions
  of the Go libraries that the repository calls and that no claim is about are the fields
  of a record of functions, \<open>lib\<close>: every theorem holds for each value of them. An error
  of a library is its message. What the libraries do with slashes, with header names and
  with JSON text is modelled, since the claims are about that. The context \<^verbatim>\<open>ctx\<close> of a
  call is only handed on, to \<^verbatim>\<open>http.NewRequestWithContext\<close> and with the request to the
  transport: the two parameters that stand for them are taken with the context given.

  \<^verbatim>\<open>(*URL).JoinPath\<close> (as of Go 1.20): the escaped path of the URL and the elements are
  joined by \<^verbatim>\<open>path.Join\<close>, from the root also when the URL's path is relative, and one
  trailing slash is kept when the last element ends with one. \<open>JoinPath_path\<close> is the
  path it hands to \<^verbatim>\<open>setPath\<close>.
\<close>

definition JoinPath_path :: "string \<Rightarrow> string list \<Rightarrow> string" where
  "JoinPath_path escapedPath elems =
     (let elem = escapedPath # elems;
          elem' = (if \<not> HasPrefix (hd elem) ''/'' then (CHR ''/'' # hd elem) # tl elem else elem);
          p = (if \<not> HasPrefix (hd elem) ''/'' then drop 1 (path_Join elem') else path_Join elem')
      in if HasSuffix (last elem') ''/'' \<and> \<not> HasSuffix p ''/'' then p @ ''/'' else p)"

type_synonym Header = "string \<Rightarrow> string list option"

record 'u Request =
  req_Method :: string
  req_URL :: 'u
  req_Header :: Header
  req_Body :: "string option"

text \<open>
  A response body is a stream that \<^verbatim>\<open>io.ReadAll\<close> reads to its end: \<open>Inr\<close> the bytes read,
  or \<open>Inl\<close> the error of the read. The field \<open>resp_Body\<close> is \<open>None\<close> for the \<^verbatim>\<open>nil\<close>
  interface value; \<open>resp_ContentLength\<close> is the length that the response declares, \<open>-1\<close>
  when it is unknown and \<open>0\<close> in a response that does not set it.
\<close>

type_synonym ReadCloser = "string + string"

record http_Response =
  resp_StatusCode :: int
  resp_ContentLength :: int
  resp_Header :: Header
  resp_Body :: "ReadCloser option"

text \<open>
  \<^verbatim>\<open>(*http.Client).Do\<close>. The client is modelled by its round trip: \<open>client req\<close> is what
  the \<^verbatim>\<open>RoundTripper\<close> of the client returns for the last request of the call, an error or
  a response. \<^verbatim>\<open>Do\<close> hands on the error; of a response it tests the body (function
  \<^verbatim>\<open>send\<close> of \<^verbatim>\<open>net/http\<close>): a \<^verbatim>\<open>nil\<close> body with a positive content length, for a method
  other than \<^verbatim>\<open>HEAD\<close>, is an error, and any other \<^verbatim>\<open>nil\<close> body is replaced by
  \<^verbatim>\<open>io.NopCloser(strings.NewReader(""))\<close>, a body that is there and reads as no bytes.
  The text of the error is abridged: the one of the library also names the type of the
  round tripper, the content length, the method and the URL.
\<close>

definition nil_Body_error :: string where
  "nil_Body_error = ''http: RoundTripper implementation returned a *Response with a content length but a nil Body''"

definition Client_Do :: "('u Request \<Rightarrow> string + http_Response) \<Rightarrow> 'u Request \<Rightarrow> string + http_Response" where
  "Client_Do client req =
     (case client req of
        Inl err \<Rightarrow> Inl err
      | Inr resp \<Rightarrow>
          (if resp_Body resp = None then
             (if resp_ContentLength resp > 0 \<and> req_Method req \<noteq> ''HEAD'' then Inl nil_Body_error
              else Inr (resp\<lparr>resp_Body := Some (Inr [])\<rparr>))
           else Inr resp))"

text \<open>
  \<^verbatim>\<open>url.Values\<close>, a map from a key to its values, as the list of its entries;
  \<^verbatim>\<open>Values.Add\<close> appends a value to those of a key.
\<close>

type_synonym Values = "(string \<times> string list) list"

text \<open>
  \<^verbatim>\<open>textproto.CanonicalMIMEHeaderKey\<close>: a key with a byte that is not a token byte is
  left as it is; otherwise the first letter and every letter after a dash are upper case
  and the other letters lower case.
\<close>

definition validHeaderFieldByte :: "char \<Rightarrow> bool" where
  \<open>validHeaderFieldByte c = (isLower c \<or> isUpper c \<or> isDigit c \<or> c \<in> set ''!#$%&'*+-.^_`|~'')\<close>

fun canonicalMIMEHeaderKey :: "bool \<Rightarrow> string \<Rightarrow> string" where
  "canonicalMIMEHeaderKey upper [] = []"
| "canonicalMIMEHeaderKey upper (c # a) =
     (let c' = (if upper \<and> isLower c then toUpper c
                else if \<not> upper \<and> isUpper c then toLower c
                else c)
      in c' # canonicalMIMEHeaderKey (c' = CHR ''-'') a)"

definition CanonicalMIMEHeaderKey :: "string \<Rightarrow> string" where
  "CanonicalMIMEHeaderKey s =
     (if list_all validHeaderFieldByte s then canonicalMIMEHeaderKey True s else s)"

definition Header_Set :: "Header \<Rightarrow> string \<Rightarrow> string \<Rightarrow> Header" where
  "Header_Set h key v = h(CanonicalMIMEHeaderKey key \<mapsto> [v])"

definition Header_Get :: "Header \<Rightarrow> string \<Rightarrow> string" where
  "Header_Get h key =
     (case h (CanonicalMIMEHeaderKey key) of
        None \<Rightarrow> []
      | Some [] \<Rightarrow> []
      | Some (v # _) \<Rightarrow> v)"

definition Values_Add :: "Values \<Rightarrow> string \<Rightarrow> string \<Rightarrow> Values" where
  "Values_Add v key val =
     AList.update key ((case map_of v key of None \<Rightarrow> [] | Some vs \<Rightarrow> vs) @ [val]) v"

record ('u, 'm, 'r) lib =
  url_Parse :: "string \<Rightarrow> string + 'u"
  url_EscapedPath :: "'u \<Rightarrow> string"
  url_setPath :: "'u \<Rightarrow> string \<Rightarrow> 'u"
  url_String :: "'u \<Rightarrow> string"
  url_Query :: "'u \<Rightarrow> Values"
  url_Encode :: "Values \<Rightarrow> string"
  url_setRawQuery :: "'u \<Rightarrow> string \<Rightarrow> 'u"
  http_NewRequestWithContext :: "string \<Rightarrow> string \<Rightarrow> string option \<Rightarrow> string + 'u Request"
  decode_ResponseMessage :: "string \<Rightarrow> string + 'm"
  unmarshal_ErrorResponse :: "string \<Rightarrow> string + 'r"

definition URL_JoinPath :: "('u, 'm, 'r) lib \<Rightarrow> 'u \<Rightarrow> string list \<Rightarrow> 'u" where
  "URL_JoinPath lib u elem = url_setPath lib u (JoinPath_path (url_EscapedPath lib u) elem)"

definition url_JoinPath :: "('u, 'm, 'r) lib \<Rightarrow> string \<Rightarrow> string list \<Rightarrow> string + string" where
  "url_JoinPath lib base elem =
     (case url_Parse lib base of
        Inl err \<Rightarrow> Inl err
      | Inr u \<Rightarrow> Inr (url_String lib (URL_JoinPath lib u elem)))"

section \<open>The request builder and the dispatcher\<close>

text \<open>
  The declarations of \<^verbatim>\<open>RequestParams\<close>, \<^verbatim>\<open>Response\<close>, \<^verbatim>\<open>ResponseMessage\<close> and
  \<^verbatim>\<open>ErrorResponse\<close> are not in the source files read here. \<open>RequestParams\<close> and
  \<open>Response\<close> have the fields the functions below read and write, with the types of those
  uses. A map of Go is ranged over in an order the run time picks: \<open>Headers\<close> and \<open>Query\<close>
  are the entries of the map in the order of one such range, so a statement for every
  list is a statement for every order. \<^verbatim>\<open>ResponseMessage\<close> is a type parameter \<open>'m\<close>.
  Pointers that the functions dereference without a check (\<^verbatim>\<open>params\<close>, \<^verbatim>\<open>client\<close>, the
  request structs) are modelled by what they point to.
\<close>

record RequestParams =
  Headers :: "(string \<times> string) list"
  Query :: "(string \<times> string) list"
  Bearer :: string
  BaseURL :: string
  ApiVersion :: string
  SenderID :: string
  Endpoint :: string
  Method :: string

record 'm Response =
  StatusCode :: int
  Headers :: Header
  Message :: 'm

text \<open>
  Modelled from the spec: the declaration of \<^verbatim>\<open>ErrorResponse\<close>, of which the source
  assigns the field \<^verbatim>\<open>Code\<close> and the spec says that it is decoded from a non-200 body
  and carries structured error fields. \<open>Err\<close> holds the decoded fields other than the code.
\<close>

record 'e ErrorResponse =
  Code :: int
  Err :: 'e

text \<open>
  An \<^verbatim>\<open>error\<close> value of the repository: a \<^verbatim>\<open>fmt.Errorf\<close> of a fixed message, one that
  wraps a library error (\<^verbatim>\<open>%w\<close>), a library error returned as it is, or the pointer to
  the decoded \<^verbatim>\<open>ErrorResponse\<close>. \<open>Panic\<close> is not a value the function returns: the call
  ends in a run-time panic.
\<close>

datatype 'e error =
    Errorf string
  | Wrapf string string
  | Lib string
  | Api "'e ErrorResponse"
  | Panic string

definition NewRequestWithContext ::
  "('u, 'm, 'e ErrorResponse) lib \<Rightarrow> RequestParams \<Rightarrow> string option \<Rightarrow> 'e error + 'u Request" where
  "NewRequestWithContext lib params payload =
     (case url_JoinPath lib (BaseURL params) [ApiVersion params, SenderID params, Endpoint params] of
        Inl err \<Rightarrow> Inl (Wrapf ''failed to join url parts: '' err)
      | Inr requestURL \<Rightarrow>
          (case (if payload = None
                 then http_NewRequestWithContext lib (Method params) requestURL None
                 else http_NewRequestWithContext lib (Method params) requestURL payload) of
             Inl err \<Rightarrow> Inl (Wrapf ''failed to create new request: '' err)
           | Inr req \<Rightarrow>
               (let req1 = fold (\<lambda>(key, v) r. r\<lparr>req_Header := Header_Set (req_Header r) key v\<rparr>)
                             (RequestParams.Headers params) req;
                    req2 = (if Bearer params \<noteq> []
                            then req1\<lparr>req_Header :=
                                   Header_Set (req_Header req1) ''Authorization'' (''Bearer '' @ Bearer params)\<rparr>
                            else req1);
                    req3 = (if length (Query params) > 0
                            then
                              (let query = fold (\<lambda>(key, v) q. Values_Add q key v) (Query params)
                                             (url_Query lib (req_URL req2))
                               in req2\<lparr>req_URL := url_setRawQuery lib (req_URL req2) (url_Encode lib query)\<rparr>)
                            else req2)
                in Inr req3)))"

text \<open>
  What a call did besides returning: the requests it handed to \<^verbatim>\<open>client.Do\<close>, and how
  often it called \<^verbatim>\<open>Close\<close> on the body of the response.
\<close>

record ('a, 'u) outcome =
  result :: 'a
  sent :: "'u Request list"
  closes :: nat

text \<open>
  \<open>Send\<close>. The call \<^verbatim>\<open>client.Do(req)\<close> is \<open>Client_Do client req\<close>. The statement
  \<^verbatim>\<open>defer resp.Body.Close()\<close> comes before the test \<^verbatim>\<open>resp.Body == nil\<close>: it evaluates the
  method value of the interface, which panics for the \<^verbatim>\<open>nil\<close> interface; for a body that
  is there, \<^verbatim>\<open>Close\<close> runs once when the function returns, whatever it returns. Both
  branches for a \<^verbatim>\<open>nil\<close> body are written out as the source has them; the theorems on
  the dispatcher show that no response of \<open>Client_Do\<close> takes them.
\<close>

definition Send ::
  "('u, 'm, 'e ErrorResponse) lib \<Rightarrow> ('u Request \<Rightarrow> string + http_Response) \<Rightarrow> RequestParams
     \<Rightarrow> string option \<Rightarrow> ('e error + 'm Response, 'u) outcome" where
  "Send lib client params payload =
     (case NewRequestWithContext lib params payload of
        Inl err \<Rightarrow> \<lparr>result = Inl err, sent = [], closes = 0\<rparr>
      | Inr req \<Rightarrow>
          (case Client_Do client req of
             Inl err \<Rightarrow> \<lparr>result = Inl (Lib err), sent = [req], closes = 0\<rparr>
           | Inr resp \<Rightarrow>
               (case resp_Body resp of
                  None \<Rightarrow>
                    \<lparr>result = Inl (Panic ''runtime error: invalid memory address or nil pointer dereference''),
                     sent = [req], closes = 0\<rparr>
                | Some body \<Rightarrow>
                    \<lparr>result =
                       (if resp_Body resp = None then Inl (Errorf ''empty response body'')
                        else case body of
                          Inl err \<Rightarrow> Inl (Lib err)
                        | Inr bodybytes \<Rightarrow>
                            (if resp_StatusCode resp \<noteq> 200 then
                               (case unmarshal_ErrorResponse lib bodybytes of
                                  Inl err \<Rightarrow> Inl (Lib err)
                                | Inr errResponse \<Rightarrow>
                                    Inl (Api (errResponse\<lparr>Code := resp_StatusCode resp\<rparr>)))
                             else
                               (case decode_ResponseMessage lib bodybytes of
                                  Inl err \<Rightarrow> Inl (Lib err)
                                | Inr message \<Rightarrow>
                                    Inr \<lparr>StatusCode = resp_StatusCode resp,
                                         Headers = resp_Header resp,
                                         Message = message\<rparr>))),
                     sent = [req], closes = 1\<rparr>)))"

section \<open>The message envelope builders\<close>

text \<open>
  The request structs of the builders. \<^verbatim>\<open>MessageType\<close> is a string type; \<^verbatim>\<open>Content\<close> is
  any Go value, here the JSON tree \<^verbatim>\<open>json.Marshal\<close> reads of it. A location and a
  contacts payload of the package \<^verbatim>\<open>models\<close> are kept as that tree too.
\<close>

record SendTextRequest =
  Recipient :: string
  Message :: string
  PreviewURL :: bool

record SendLocationRequest =
  Recipient :: string
  Location :: "json option"

record ReactRequest =
  Recipient :: string
  MessageID :: string
  Emoji :: string

record SendContactRequest =
  Recipient :: string
  Contacts :: "json option"

record ReplyParams =
  Recipient :: string
  Context :: string
  MessageType :: string
  Content :: json

text \<open>
  The payload structs of the package \<^verbatim>\<open>models\<close>, with the JSON names the comments of the
  source and the spec give them.
\<close>

record Text =
  PreviewUrl :: bool
  Body :: string

record Reaction =
  MessageID :: string
  Emoji :: string

definition Text_json :: "Text \<Rightarrow> json" where
  "Text_json t = JObject [(''preview_url'', JBool (PreviewUrl t)), (''body'', JString (Body t))]"

definition Reaction_json :: "Reaction \<Rightarrow> json" where
  "Reaction_json r =
     JObject [(''message_id'', JString (MessageID r)), (''emoji'', JString (Emoji r))]"

text \<open>
  Modelled from the spec: the declaration of the struct \<^verbatim>\<open>Message\<close> and its JSON tags,
  which are not in the source files read here. The spec gives the envelope a fixed
  \<open>messaging_product\<close>, a \<open>to\<close>, an optional \<open>recipient_type\<close>, the discriminant \<open>type\<close>
  and one payload among \<open>text\<close>, \<open>location\<close>, \<open>reaction\<close> and \<open>contacts\<close>: the optional
  field and the payloads are left out of the JSON when they are empty (\<^verbatim>\<open>omitempty\<close>), the
  other fields are always written, in the order of the struct literals of the source.
\<close>

record Message =
  Product :: string
  To :: string
  RecipientType :: string
  Type :: string
  Text :: "Text option"
  Location :: "json option"
  Reaction :: "Reaction option"
  Contacts :: "json option"

definition omitempty_string :: "string \<Rightarrow> string \<Rightarrow> (string \<times> json) list" where
  "omitempty_string name v = (if v = [] then [] else [(name, JString v)])"

definition omitempty_pointer :: "string \<Rightarrow> ('a \<Rightarrow> json) \<Rightarrow> 'a option \<Rightarrow> (string \<times> json) list" where
  "omitempty_pointer name enc v = (case v of None \<Rightarrow> [] | Some x \<Rightarrow> [(name, enc x)])"

definition Message_json :: "Message \<Rightarrow> json" where
  "Message_json m =
     JObject
       ([(''messaging_product'', JString (Product m)), (''to'', JString (To m))]
        @ omitempty_string ''recipient_type'' (RecipientType m)
        @ [(''type'', JString (Type m))]
        @ omitempty_pointer ''text'' Text_json (Text m)
        @ omitempty_pointer ''location'' id (Location m)
        @ omitempty_pointer ''reaction'' Reaction_json (Reaction m)
        @ omitempty_pointer ''contacts'' id (Contacts m))"

definition SendText ::
  "('u, 'm, 'e ErrorResponse) lib \<Rightarrow> ('u Request \<Rightarrow> string + http_Response) \<Rightarrow> RequestParams
     \<Rightarrow> SendTextRequest \<Rightarrow> ('e error + 'm Response, 'u) outcome" where
  "SendText lib client params req =
     (let text = \<lparr>Product = ''whatsapp'', To = SendTextRequest.Recipient req,
                  RecipientType = ''individual'', Type = ''text'',
                  Text = Some \<lparr>PreviewUrl = SendTextRequest.PreviewURL req, Body = SendTextRequest.Message req\<rparr>,
                  Location = None, Reaction = None, Contacts = None\<rparr>
      in case json_Marshal (Message_json text) of
           Inl err \<Rightarrow> \<lparr>result = Inl (Lib err), sent = [], closes = 0\<rparr>
         | Inr payload \<Rightarrow> Send lib client params (Some payload))"

definition SendLocation ::
  "('u, 'm, 'e ErrorResponse) lib \<Rightarrow> ('u Request \<Rightarrow> string + http_Response) \<Rightarrow> RequestParams
     \<Rightarrow> SendLocationRequest \<Rightarrow> ('e error + 'm Response, 'u) outcome" where
  "SendLocation lib client params req =
     (let location = \<lparr>Product = ''whatsapp'', To = SendLocationRequest.Recipient req,
                      RecipientType = ''individual'', Type = ''location'',
                      Text = None, Location = SendLocationRequest.Location req,
                      Reaction = None, Contacts = None\<rparr>
      in case json_Marshal (Message_json location) of
           Inl err \<Rightarrow> \<lparr>result = Inl (Lib err), sent = [], closes = 0\<rparr>
         | Inr payload \<Rightarrow> Send lib client params (Some payload))"

definition React ::
  "('u, 'm, 'e ErrorResponse) lib \<Rightarrow> ('u Request \<Rightarrow> string + http_Response) \<Rightarrow> RequestParams
     \<Rightarrow> ReactRequest \<Rightarrow> ('e error + 'm Response, 'u) outcome" where
  "React lib client params req =
     (let reaction = \<lparr>Product = ''whatsapp'', To = ReactRequest.Recipient req,
                      RecipientType = [], Type = ''reaction'',
                      Text = None, Location = None,
                      Reaction = Some \<lparr>MessageID = ReactRequest.MessageID req,
                                       Emoji = ReactRequest.Emoji req\<rparr>,
                      Contacts = None\<rparr>
      in case json_Marshal (Message_json reaction) of
           Inl err \<Rightarrow> \<lparr>result = Inl (Lib err), sent = [], closes = 0\<rparr>
         | Inr payload \<Rightarrow> Send lib client params (Some payload))"

definition SendContact ::
  "('u, 'm, 'e ErrorResponse) lib \<Rightarrow> ('u Request \<Rightarrow> string + http_Response) \<Rightarrow> RequestParams
     \<Rightarrow> SendContactRequest \<Rightarrow> ('e error + 'm Response, 'u) outcome" where
  "SendContact lib client params req =
     (let contact = \<lparr>Product = ''whatsapp'', To = SendContactRequest.Recipient req,
                     RecipientType = ''individual'', Type = ''contact'',
                     Text = None, Location = None, Reaction = None,
                     Contacts = SendContactRequest.Contacts req\<rparr>
      in case json_Marshal (Message_json contact) of
           Inl err \<Rightarrow> \<lparr>result = Inl (Lib err), sent = [], closes = 0\<rparr>
         | Inr payload \<Rightarrow> Send lib client params (Some payload))"

section \<open>The reply builder\<close>

text \<open>
  The options pointer is tested against \<^verbatim>\<open>nil\<close>, so it is an option. The payload is
  the concatenation the source writes: the context id, the recipient and the message type
  are copied into the JSON text as they are.
\<close>

definition buildReplyPayload :: "ReplyParams \<Rightarrow> 'e error + string" where
  \<open>buildReplyPayload options =
     (case json_Marshal (ReplyParams.Content options) of
        Inl err \<Rightarrow> Inl (Lib err)
      | Inr contentByte \<Rightarrow>
          Inr (''{"messaging_product":"whatsapp","context":{"message_id":"''
               @ ReplyParams.Context options
               @ ''"},"to":"''
               @ ReplyParams.Recipient options
               @ ''","type":"''
               @ ReplyParams.MessageType options
               @ ''","''
               @ ReplyParams.MessageType options
               @ ''":''
               @ contentByte
               @ ''}''))\<close>

definition Reply ::
  "('u, 'm, 'e ErrorResponse) lib \<Rightarrow> ('u Request \<Rightarrow> string + http_Response) \<Rightarrow> RequestParams
     \<Rightarrow> ReplyParams option \<Rightarrow> ('e error + 'm Response, 'u) outcome" where
  "Reply lib client params options =
     (case options of
        None \<Rightarrow> \<lparr>result = Inl (Errorf ''options cannot be nil''), sent = [], closes = 0\<rparr>
      | Some opts \<Rightarrow>
          (case buildReplyPayload opts of
             Inl err \<Rightarrow> \<lparr>result = Inl err, sent = [], closes = 0\<rparr>
           | Inr payload \<Rightarrow> Send lib client params (Some payload)))"

section \<open>encoding/json: reading\<close>

text \<open>
  \<^verbatim>\<open>json.Unmarshal\<close> first runs \<^verbatim>\<open>checkValid\<close> over the whole text and returns its syntax
  error without decoding anything. \<^verbatim>\<open>checkValid\<close> feeds the scanner of
  \<^verbatim>\<open>encoding/json\<close> one byte at a time: the scanner is a state machine whose state is
  the next step function, the stack of the objects and arrays that are open, and the
  flag set at the end of the top-level value. The step functions are the constructors of
  \<open>step_fn\<close> under their names in the library. \<open>parseState\<close> has the innermost state first.
\<close>

datatype scan_code =
    scanContinue | scanBeginLiteral | scanBeginObject | scanObjectKey | scanObjectValue
  | scanEndObject | scanBeginArray | scanArrayValue | scanEndArray | scanSkipSpace
  | scanEnd | scanError

datatype parse_state = parseObjectKey | parseObjectValue | parseArrayValue

datatype step_fn =
    stateBeginValueOrEmpty | stateBeginValue | stateBeginStringOrEmpty | stateBeginString
  | stateEndValue | stateEndTop
  | stateInString | stateInStringEsc | stateInStringEscU | stateInStringEscU1
  | stateInStringEscU12 | stateInStringEscU123
  | stateNeg | state1 | state0 | stateDot | stateDot0 | stateE | stateESign | stateE0
  | stateT | stateTr | stateTru | stateF | stateFa | stateFal | stateFals
  | stateN | stateNu | stateNul
  | stateError

text \<open>
  A \<^verbatim>\<open>SyntaxError\<close> of the scanner: the byte that cannot stand where it stands, with the
  words the library adds to say where, or the end of the input before the end of the value.
\<close>

datatype SyntaxError = InvalidCharacter char string | UnexpectedEnd

record scanner =
  step :: step_fn
  parseState :: "parse_state list"
  endTop :: bool
  scan_err :: "SyntaxError option"

definition maxNestingDepth :: nat where
  "maxNestingDepth = 10000"

definition scanner_reset :: scanner where
  "scanner_reset = \<lparr>step = stateBeginValue, parseState = [], endTop = False, scan_err = None\<rparr>"

definition isSpace :: "char \<Rightarrow> bool" where
  "isSpace c = (c = CHR '' '' \<or> c = CHR 0x09 \<or> c = CHR 0x0D \<or> c = CHR 0x0A)"

definition isHexDigit :: "char \<Rightarrow> bool" where
  "isHexDigit c =
     (isDigit c \<or> (byte (CHR ''a'') \<le> byte c \<and> byte c \<le> byte (CHR ''f''))
      \<or> (byte (CHR ''A'') \<le> byte c \<and> byte c \<le> byte (CHR ''F'')))"

definition scanner_error :: "scanner \<Rightarrow> char \<Rightarrow> string \<Rightarrow> scan_code \<times> scanner" where
  "scanner_error s c ctxt =
     (scanError, s\<lparr>step := stateError, scan_err := Some (InvalidCharacter c ctxt)\<rparr>)"

definition continue_with :: "scanner \<Rightarrow> step_fn \<Rightarrow> scan_code \<times> scanner" where
  "continue_with s f = (scanContinue, s\<lparr>step := f\<rparr>)"

definition pushParseState ::
  "scanner \<Rightarrow> char \<Rightarrow> parse_state \<Rightarrow> scan_code \<Rightarrow> scan_code \<times> scanner" where
  "pushParseState s c newParseState successState =
     (let s' = s\<lparr>parseState := newParseState # parseState s\<rparr>
      in if length (parseState s') \<le> maxNestingDepth then (successState, s')
         else scanner_error s' c ''exceeded max depth'')"

definition popParseState :: "scanner \<Rightarrow> scanner" where
  "popParseState s =
     (let ps = tl (parseState s)
      in if ps = [] then s\<lparr>parseState := ps, step := stateEndTop, endTop := True\<rparr>
         else s\<lparr>parseState := ps, step := stateEndValue\<rparr>)"

definition run_stateEndTop :: "scanner \<Rightarrow> char \<Rightarrow> scan_code \<times> scanner" where
  "run_stateEndTop s c =
     (if \<not> isSpace c then (scanEnd, snd (scanner_error s c ''after top-level value''))
      else (scanEnd, s))"

definition run_stateEndValue :: "scanner \<Rightarrow> char \<Rightarrow> scan_code \<times> scanner" where
  "run_stateEndValue s c =
     (case parseState s of
        [] \<Rightarrow> run_stateEndTop (s\<lparr>step := stateEndTop, endTop := True\<rparr>) c
      | ps # rest \<Rightarrow>
          if isSpace c then (scanSkipSpace, s\<lparr>step := stateEndValue\<rparr>)
          else case ps of
            parseObjectKey \<Rightarrow>
              if c = CHR '':'' then
                (scanObjectKey, s\<lparr>parseState := parseObjectValue # rest, step := stateBeginValue\<rparr>)
              else scanner_error s c ''after object key''
          | parseObjectValue \<Rightarrow>
              if c = CHR '','' then
                (scanObjectValue, s\<lparr>parseState := parseObjectKey # rest, step := stateBeginString\<rparr>)
              else if c = CHR ''}'' then (scanEndObject, popParseState s)
              else scanner_error s c ''after object key:value pair''
          | parseArrayValue \<Rightarrow>
              if c = CHR '','' then (scanArrayValue, s\<lparr>step := stateBeginValue\<rparr>)
              else if c = CHR '']'' then (scanEndArray, popParseState s)
              else scanner_error s c ''after array element'')"

definition run_stateBeginValue :: "scanner \<Rightarrow> char \<Rightarrow> scan_code \<times> scanner" where
  \<open>run_stateBeginValue s c =
     (if isSpace c then (scanSkipSpace, s)
      else if c = CHR ''{'' then
        pushParseState (s\<lparr>step := stateBeginStringOrEmpty\<rparr>) c parseObjectKey scanBeginObject
      else if c = CHR ''['' then
        pushParseState (s\<lparr>step := stateBeginValueOrEmpty\<rparr>) c parseArrayValue scanBeginArray
      else if c = CHR ''"'' then (scanBeginLiteral, s\<lparr>step := stateInString\<rparr>)
      else if c = CHR ''-'' then (scanBeginLiteral, s\<lparr>step := stateNeg\<rparr>)
      else if c = CHR ''0'' then (scanBeginLiteral, s\<lparr>step := state0\<rparr>)
      else if c = CHR ''t'' then (scanBeginLiteral, s\<lparr>step := stateT\<rparr>)
      else if c = CHR ''f'' then (scanBeginLiteral, s\<lparr>step := stateF\<rparr>)
      else if c = CHR ''n'' then (scanBeginLiteral, s\<lparr>step := stateN\<rparr>)
      else if byte (CHR ''1'') \<le> byte c \<and> byte c \<le> byte (CHR ''9'') then
        (scanBeginLiteral, s\<lparr>step := state1\<rparr>)
      else scanner_error s c ''looking for beginning of value'')\<close>

definition run_stateBeginString :: "scanner \<Rightarrow> char \<Rightarrow> scan_code \<times> scanner" where
  \<open>run_stateBeginString s c =
     (if isSpace c then (scanSkipSpace, s)
      else if c = CHR ''"'' then (scanBeginLiteral, s\<lparr>step := stateInString\<rparr>)
      else scanner_error s c ''looking for beginning of object key string'')\<close>

definition run_state0 :: "scanner \<Rightarrow> char \<Rightarrow> scan_code \<times> scanner" where
  "run_state0 s c =
     (if c = CHR ''.'' then continue_with s stateDot
      else if c = CHR ''e'' \<or> c = CHR ''E'' then continue_with s stateE
      else run_stateEndValue s c)"

definition run_stateESign :: "scanner \<Rightarrow> char \<Rightarrow> scan_code \<times> scanner" where
  "run_stateESign s c =
     (if isDigit c then continue_with s stateE0
      else scanner_error s c ''in exponent of numeric literal'')"

definition expect :: "scanner \<Rightarrow> char \<Rightarrow> char \<Rightarrow> step_fn \<Rightarrow> string \<Rightarrow> scan_code \<times> scanner" where
  "expect s c wanted f ctxt = (if c = wanted then continue_with s f else scanner_error s c ctxt)"

definition scanner_step :: "scanner \<Rightarrow> char \<Rightarrow> scan_code \<times> scanner" where
  \<open>scanner_step s c =
     (case step s of
        stateBeginValueOrEmpty \<Rightarrow>
          if isSpace c then (scanSkipSpace, s)
          else if c = CHR '']'' then run_stateEndValue s c
          else run_stateBeginValue s c
      | stateBeginValue \<Rightarrow> run_stateBeginValue s c
      | stateBeginStringOrEmpty \<Rightarrow>
          if isSpace c then (scanSkipSpace, s)
          else if c = CHR ''}'' then
            run_stateEndValue (s\<lparr>parseState := parseObjectValue # tl (parseState s)\<rparr>) c
          else run_stateBeginString s c
      | stateBeginString \<Rightarrow> run_stateBeginString s c
      | stateEndValue \<Rightarrow> run_stateEndValue s c
      | stateEndTop \<Rightarrow> run_stateEndTop s c
      | stateInString \<Rightarrow>
          if c = CHR ''"'' then continue_with s stateEndValue
          else if c = backslash then continue_with s stateInStringEsc
          else if byte c < 0x20 then scanner_error s c ''in string literal''
          else (scanContinue, s)
      | stateInStringEsc \<Rightarrow>
          if c \<in> set ''bfnrt/"'' \<or> c = backslash then continue_with s stateInString
          else if c = CHR ''u'' then continue_with s stateInStringEscU
          else scanner_error s c ''in string escape code''
      | stateInStringEscU \<Rightarrow>
          if isHexDigit c then continue_with s stateInStringEscU1
          else scanner_error s c (''in '' @ [backslash] @ ''u hexadecimal character escape'')
      | stateInStringEscU1 \<Rightarrow>
          if isHexDigit c then continue_with s stateInStringEscU12
          else scanner_error s c (''in '' @ [backslash] @ ''u hexadecimal character escape'')
      | stateInStringEscU12 \<Rightarrow>
          if isHexDigit c then continue_with s stateInStringEscU123
          else scanner_error s c (''in '' @ [backslash] @ ''u hexadecimal character escape'')
      | stateInStringEscU123 \<Rightarrow>
          if isHexDigit c then continue_with s stateInString
          else scanner_error s c (''in '' @ [backslash] @ ''u hexadecimal character escape'')
      | stateNeg \<Rightarrow>
          if c = CHR ''0'' then continue_with s state0
          else if byte (CHR ''1'') \<le> byte c \<and> byte c \<le> byte (CHR ''9'') then continue_with s state1
          else scanner_error s c ''in numeric literal''
      | state1 \<Rightarrow> if isDigit c then continue_with s state1 else run_state0 s c
      | state0 \<Rightarrow> run_state0 s c
      | stateDot \<Rightarrow>
          if isDigit c then continue_with s stateDot0
          else scanner_error s c ''after decimal point in numeric literal''
      | stateDot0 \<Rightarrow>
          if isDigit c then (scanContinue, s)
          else if c = CHR ''e'' \<or> c = CHR ''E'' then continue_with s stateE
          else run_stateEndValue s c
      | stateE \<Rightarrow>
          if c = CHR ''+'' \<or> c = CHR ''-'' then continue_with s stateESign
          else run_stateESign s c
      | stateESign \<Rightarrow> run_stateESign s c
      | stateE0 \<Rightarrow> if isDigit c then (scanContinue, s) else run_stateEndValue s c
      | stateT \<Rightarrow> expect s c (CHR ''r'') stateTr ''in literal true (expecting 'r')''
      | stateTr \<Rightarrow> expect s c (CHR ''u'') stateTru ''in literal true (expecting 'u')''
      | stateTru \<Rightarrow> expect s c (CHR ''e'') stateEndValue ''in literal true (expecting 'e')''
      | stateF \<Rightarrow> expect s c (CHR ''a'') stateFa ''in literal false (expecting 'a')''
      | stateFa \<Rightarrow> expect s c (CHR ''l'') stateFal ''in literal false (expecting 'l')''
      | stateFal \<Rightarrow> expect s c (CHR ''s'') stateFals ''in literal false (expecting 's')''
      | stateFals \<Rightarrow> expect s c (CHR ''e'') stateEndValue ''in literal false (expecting 'e')''
      | stateN \<Rightarrow> expect s c (CHR ''u'') stateNu ''in literal null (expecting 'u')''
      | stateNu \<Rightarrow> expect s c (CHR ''l'') stateNul ''in literal null (expecting 'l')''
      | stateNul \<Rightarrow> expect s c (CHR ''l'') stateEndValue ''in literal null (expecting 'l')''
      | stateError \<Rightarrow> (scanError, s))\<close>

definition scanner_eof :: "scanner \<Rightarrow> scan_code \<times> scanner" where
  "scanner_eof s =
     (if scan_err s \<noteq> None then (scanError, s)
      else if endTop s then (scanEnd, s)
      else
        let s' = snd (scanner_step s (CHR '' ''))
        in if endTop s' then (scanEnd, s')
           else if scan_err s' = None then
             (scanError, s'\<lparr>scan_err := Some UnexpectedEnd\<rparr>)
           else (scanError, s'))"

fun checkValid_loop :: "scanner \<Rightarrow> string \<Rightarrow> SyntaxError option" where
  "checkValid_loop scan [] =
     (case scanner_eof scan of (code, scan') \<Rightarrow> if code = scanError then scan_err scan' else None)"
| "checkValid_loop scan (c # data) =
     (case scanner_step scan c of
        (code, scan') \<Rightarrow> if code = scanError then scan_err scan' else checkValid_loop scan' data)"

definition checkValid :: "string \<Rightarrow> SyntaxError option" where
  "checkValid data = checkValid_loop scanner_reset data"

definition json_Valid :: "string \<Rightarrow> bool" where
  "json_Valid data = (checkValid data = None)"

section \<open>An instance of the libraries for examples\<close>

text \<open>
  To run the model on an example, the functions of \<open>lib\<close> need values. \<open>example_lib\<close>
  reads a URL of the form \<^verbatim>\<open>https://host/path?query\<close> with a path that needs no escaping,
  which is what the examples below give it, and refuses any other; it writes a query,
  which no example has, without escaping or sorting it; it decodes a body that is valid
  JSON by keeping its text, and gives a decoded error the code 190. For a body of no
  bytes it gives the errors of \<^verbatim>\<open>encoding/json\<close>: \<^verbatim>\<open>EOF\<close> from the decoder of a stream and
  \<^verbatim>\<open>unexpected end of JSON input\<close> from \<^verbatim>\<open>json.Unmarshal\<close>.
\<close>

record example_URL =
  SchemeHost :: string
  Path :: string
  RawQuery :: string

definition example_Parse :: "string \<Rightarrow> string + example_URL" where
  "example_Parse rawURL =
     (if HasPrefix rawURL ''https://'' then
        (let rest = drop 8 rawURL;
             host = takeWhile (\<lambda>c. c \<noteq> CHR ''/'' \<and> c \<noteq> CHR ''?'') rest;
             rest1 = dropWhile (\<lambda>c. c \<noteq> CHR ''/'' \<and> c \<noteq> CHR ''?'') rest
         in Inr \<lparr>SchemeHost = ''https://'' @ host,
                 Path = takeWhile (\<lambda>c. c \<noteq> CHR ''?'') rest1,
                 RawQuery = drop 1 (dropWhile (\<lambda>c. c \<noteq> CHR ''?'') rest1)\<rparr>)
      else Inl ''unsupported URL'')"

definition example_String :: "example_URL \<Rightarrow> string" where
  "example_String u =
     SchemeHost u
     @ (if Path u \<noteq> [] \<and> hd (Path u) \<noteq> CHR ''/'' then ''/'' else [])
     @ Path u
     @ (if RawQuery u \<noteq> [] then CHR ''?'' # RawQuery u else [])"

fun join_amp :: "string list \<Rightarrow> string" where
  "join_amp [] = []"
| "join_amp [e] = e"
| "join_amp (e # es) = e @ ''&'' @ join_amp es"

definition example_Encode :: "Values \<Rightarrow> string" where
  "example_Encode v = join_amp (concat (map (\<lambda>(k, vs). map (\<lambda>x. k @ ''='' @ x) vs) v))"

definition example_NewRequest :: "string \<Rightarrow> string \<Rightarrow> string option \<Rightarrow> string + example_URL Request" where
  "example_NewRequest method rawURL body =
     (let method' = (if method = [] then ''GET'' else method)
      in if \<not> list_all validHeaderFieldByte method' then Inl ''net/http: invalid method''
         else case example_Parse rawURL of
           Inl err \<Rightarrow> Inl err
         | Inr u \<Rightarrow> Inr \<lparr>req_Method = method', req_URL = u, req_Header = Map.empty, req_Body = body\<rparr>)"

definition example_lib :: "(example_URL, string, string ErrorResponse) lib" where
  "example_lib =
     \<lparr>url_Parse = example_Parse,
      url_EscapedPath = Path,
      url_setPath = (\<lambda>u p. u\<lparr>Path := p\<rparr>),
      url_String = example_String,
      url_Query = (\<lambda>u. []),
      url_Encode = example_Encode,
      url_setRawQuery = (\<lambda>u q. u\<lparr>RawQuery := q\<rparr>),
      http_NewRequestWithContext = example_NewRequest,
      decode_ResponseMessage =
        (\<lambda>b. if b = [] then Inl ''EOF''
             else if json_Valid b then Inr b else Inl ''invalid JSON''),
      unmarshal_ErrorResponse =
        (\<lambda>b. if b = [] then Inl ''unexpected end of JSON input''
             else if json_Valid b then Inr \<lparr>Code = 190, Err = b\<rparr> else Inl ''invalid JSON'')\<rparr>"

definition example_params :: RequestParams where
  "example_params =
     \<lparr>RequestParams.Headers = [(''Content-Type'', ''application/json'')],
      Query = [],
      Bearer = ''TOKEN'',
      BaseURL = ''https://graph.facebook.com'',
      ApiVersion = ''v15.0'',
      SenderID = ''123'',
      Endpoint = ''messages'',
      Method = ''POST''\<rparr>"

definition example_client :: "int \<Rightarrow> ReadCloser option \<Rightarrow> 'u Request \<Rightarrow> string + http_Response" where
  "example_client status body req =
     Inr \<lparr>resp_StatusCode = status,
          resp_ContentLength = (case body of Some (Inr b) \<Rightarrow> int (length b) | Some (Inl err) \<Rightarrow> - 1 | None \<Rightarrow> 0),
          resp_Header = [''Content-Type'' \<mapsto> [''application/json'']],
          resp_Body = body\<rparr>"

text \<open>The bodies of an error response and of a success response of the API.\<close>

definition example_error_body :: string where
  \<open>example_error_body = ''{"error":{"message":"Invalid OAuth access token","code":190}}''\<close>

definition example_success_body :: string where
  \<open>example_success_body =
     ''{"messaging_product":"whatsapp","contacts":[{"input":"123","wa_id":"123"}],"messages":[{"id":"wamid.ID"}]}''\<close>

section \<open>Notions for the statements\<close>





text \<open>
  The scanner inside a string literal, below the open objects and arrays \<open>ps\<close>.
\<close>

abbreviation (input) inString :: "parse_state list \<Rightarrow> scanner" where
  "inString ps \<equiv> \<lparr>step = stateInString, parseState = ps, endTop = False, scan_err = None\<rparr>"

section \<open>Header names and the headers of a request\<close>

lemma Canonical_Authorization: "CanonicalMIMEHeaderKey ''Authorization'' = ''Authorization''"
  by code_simp

lemma Canonical_authorization: "CanonicalMIMEHeaderKey ''authorization'' = ''Authorization''"
  by code_simp

lemma Canonical_Content_Type: "CanonicalMIMEHeaderKey ''Content-Type'' = ''Content-Type''"
  by code_simp

lemma Canonical_Accept: "CanonicalMIMEHeaderKey ''Accept'' = ''Accept''"
  by code_simp

lemma Header_Set_apply:
  "Header_Set h key v K = (if K = CanonicalMIMEHeaderKey key then Some [v] else h K)"
  by (simp add: Header_Set_def)

lemma fold_req:
  "fold (\<lambda>(key, v) r. r\<lparr>req_Header := Header_Set (req_Header r) key v\<rparr>) hs req
     = req\<lparr>req_Header := fold (\<lambda>(key, v) h. Header_Set h key v) hs (req_Header req)\<rparr>"
  by (induction hs arbitrary: req) (auto simp: case_prod_beta)

lemma fold_req_Header:
  "req_Header (fold (\<lambda>(key, v) r. r\<lparr>req_Header := Header_Set (req_Header r) key v\<rparr>) hs req)
     = fold (\<lambda>(key, v) h. Header_Set h key v) hs (req_Header req)"
  by (simp add: fold_req)

text \<open>
  The headers of the request that \<open>NewRequestWithContext\<close> returns: the caller's headers
  set one after the other on those of the new request, then the bearer token.
\<close>

lemma NewRequestWithContext_Header:
  assumes "NewRequestWithContext lib params payload = Inr req"
  shows "\<exists>h0. req_Header req =
           (let h = fold (\<lambda>(key, v) h. Header_Set h key v) (RequestParams.Headers params) h0
            in if Bearer params \<noteq> [] then Header_Set h ''Authorization'' (''Bearer '' @ Bearer params)
               else h)"
  using assms
  by (auto simp: NewRequestWithContext_def Let_def fold_req_Header split: sum.splits if_splits)

text \<open>
  When every entry whose key has the canonical form \<open>K\<close> carries the value \<open>v\<close>, and
  there is such an entry, the header \<open>K\<close> ends as \<open>v\<close> in whatever order the entries are
  set.
\<close>

lemma fold_Header_Set_agree:
  assumes "\<forall>(k, v') \<in> set hs. CanonicalMIMEHeaderKey k = K \<longrightarrow> v' = v"
    and "\<exists>(k, v') \<in> set hs. CanonicalMIMEHeaderKey k = K"
  shows "fold (\<lambda>(key, v) h. Header_Set h key v) hs h0 K = Some [v]"
proof -
  define f where "f = (\<lambda>(key :: string, v :: string) h. Header_Set h key v)"
  have step: "fold f (xs @ [(k, w)]) h0 K
                = (if K = CanonicalMIMEHeaderKey k then Some [w] else fold f xs h0 K)" for xs k w
    by (simp add: f_def Header_Set_apply)
  from assms have "fold f hs h0 K = Some [v]"
  proof (induction hs rule: rev_induct)
    case Nil
    then show ?case by simp
  next
    case (snoc x xs)
    obtain k w where x: "x = (k, w)" by (cases x)
    show ?case
    proof (cases "CanonicalMIMEHeaderKey k = K")
      case True
      with snoc.prems(1) x have "w = v" by auto
      with True show ?thesis unfolding x step by simp
    next
      case False
      with snoc.prems x have "\<exists>(k, v') \<in> set xs. CanonicalMIMEHeaderKey k = K" by auto
      moreover from snoc.prems
      have "\<forall>(k, v') \<in> set xs. CanonicalMIMEHeaderKey k = K \<longrightarrow> v' = v" by auto
      ultimately have "fold f xs h0 K = Some [v]"
        by (rule snoc.IH [rotated])
      with False show ?thesis unfolding x step by auto
    qed
  qed
  then show ?thesis by (simp add: f_def)
qed

section \<open>The example request\<close>

lemma example_JoinPath_path:
  "JoinPath_path [] [''v15.0'', ''123'', ''messages''] = ''v15.0/123/messages''"
  "JoinPath_path [] [''v15.0'', ''123'', ''messages/''] = ''v15.0/123/messages/''"
  by code_simp+

lemma example_url_JoinPath:
  "url_JoinPath example_lib ''https://graph.facebook.com'' [''v15.0'', ''123'', ''messages'']
     = Inr ''https://graph.facebook.com/v15.0/123/messages''"
  "url_JoinPath example_lib ''https://graph.facebook.com'' [''v15.0'', ''123'', ''messages/'']
     = Inr ''https://graph.facebook.com/v15.0/123/messages/''"
  by (simp_all add: url_JoinPath_def URL_JoinPath_def example_lib_def example_Parse_def
      example_String_def HasPrefix_def example_JoinPath_path)

lemma validMethod_POST:
  "validHeaderFieldByte (CHR ''P'')" "validHeaderFieldByte (CHR ''O'')"
  "validHeaderFieldByte (CHR ''S'')" "validHeaderFieldByte (CHR ''T'')"
  by code_simp+

lemma example_NewRequest_messages:
  "example_NewRequest ''POST'' ''https://graph.facebook.com/v15.0/123/messages'' payload
     = Inr \<lparr>req_Method = ''POST'',
            req_URL = \<lparr>SchemeHost = ''https://graph.facebook.com'',
                       Path = ''/v15.0/123/messages'', RawQuery = []\<rparr>,
            req_Header = Map.empty, req_Body = payload\<rparr>"
  by (simp add: example_NewRequest_def example_Parse_def HasPrefix_def validMethod_POST)


text \<open>
  The request built for the example parameters, with any headers and any bearer token.
\<close>

lemma example_request:
  "NewRequestWithContext example_lib
     (example_params\<lparr>RequestParams.Headers := hs, Bearer := b\<rparr>) payload
   = Inr \<lparr>req_Method = ''POST'',
          req_URL = \<lparr>SchemeHost = ''https://graph.facebook.com'',
                     Path = ''/v15.0/123/messages'', RawQuery = []\<rparr>,
          req_Header =
            (if b \<noteq> []
             then Header_Set (fold (\<lambda>(key, v) h. Header_Set h key v) hs Map.empty)
                    ''Authorization'' (''Bearer '' @ b)
             else fold (\<lambda>(key, v) h. Header_Set h key v) hs Map.empty),
          req_Body = payload\<rparr>"
proof -
  have new: "http_NewRequestWithContext example_lib = example_NewRequest"
    by (simp add: example_lib_def)
  show ?thesis
    by (cases payload)
      (simp_all add: NewRequestWithContext_def example_url_JoinPath new
        example_NewRequest_messages fold_req Let_def example_params_def)
qed

lemma example_request_plain:
  "NewRequestWithContext example_lib example_params payload
   = Inr \<lparr>req_Method = ''POST'',
          req_URL = \<lparr>SchemeHost = ''https://graph.facebook.com'',
                     Path = ''/v15.0/123/messages'', RawQuery = []\<rparr>,
          req_Header = [''Content-Type'' \<mapsto> [''application/json''],
                        ''Authorization'' \<mapsto> [''Bearer TOKEN'']],
          req_Body = payload\<rparr>"
  using example_request [where hs = "[(''Content-Type'', ''application/json'')]" and b = "''TOKEN''"
      and payload = payload]
  by (simp add: example_params_def Header_Set_def Canonical_Authorization Canonical_Content_Type)

section \<open>The bearer token and the caller's headers\<close>

text \<open>
  Claim C2. For every \<open>RequestParams\<close> with a non-empty bearer token, the request that
  \<open>NewRequestWithContext\<close> returns has the single \<open>Authorization\<close> value
  \<open>Bearer <token>\<close>, whatever the caller's \<open>Headers\<close> hold and in whatever order they are
  ranged over: the bearer value is set last.
\<close>

theorem bearer_wins:
  assumes "Bearer params \<noteq> []"
    and "NewRequestWithContext lib params payload = Inr req"
  shows "req_Header req ''Authorization'' = Some [''Bearer '' @ Bearer params]
         \<and> Header_Get (req_Header req) ''Authorization'' = ''Bearer '' @ Bearer params"
proof -
  from NewRequestWithContext_Header [OF assms(2)] assms(1)
  obtain h where "req_Header req = Header_Set h ''Authorization'' (''Bearer '' @ Bearer params)"
    by (auto simp: Let_def)
  then show ?thesis
    by (simp add: Header_Set_def Header_Get_def Canonical_Authorization)
qed

text \<open>
  The example request with the bearer token \<open>TOKEN\<close> and a caller who also supplies an
  \<open>Authorization\<close> header.
\<close>

theorem bearer_wins_witness:
  "Bearer (example_params\<lparr>RequestParams.Headers := [(''Authorization'', ''Basic abc'')],
                           Bearer := ''TOKEN''\<rparr>) \<noteq> []
   \<and> (\<exists>req. NewRequestWithContext example_lib
               (example_params\<lparr>RequestParams.Headers := [(''Authorization'', ''Basic abc'')],
                               Bearer := ''TOKEN''\<rparr>) (Some ''{}'') = Inr req
            \<and> req_Header req ''Authorization'' = Some [''Bearer TOKEN'']
            \<and> Header_Get (req_Header req) ''Authorization'' = ''Bearer TOKEN'')"
proof -
  let ?p = "example_params\<lparr>RequestParams.Headers := [(''Authorization'', ''Basic abc'')],
                            Bearer := ''TOKEN''\<rparr>"
  have b: "Bearer ?p \<noteq> []" by simp
  obtain req where r: "NewRequestWithContext example_lib ?p (Some ''{}'') = Inr req"
    using example_request by blast
  from bearer_wins [OF b r] b r show ?thesis by simp
qed

text \<open>
  Claim C10, as amended. With an empty bearer token \<open>NewRequestWithContext\<close> sets no
  \<open>Authorization\<close> header of its own, and the caller's entry \<open>Authorization\<close> reaches the
  request unchanged, provided no other key of the \<open>Headers\<close> map has the canonical form
  \<open>Authorization\<close>. The keys of a Go map are distinct.
\<close>

theorem caller_Authorization_kept:
  assumes "Bearer params = []"
    and "NewRequestWithContext lib params payload = Inr req"
    and "distinct (map fst (RequestParams.Headers params))"
    and "(''Authorization'', v) \<in> set (RequestParams.Headers params)"
    and "\<forall>(k, v') \<in> set (RequestParams.Headers params).
           k \<noteq> ''Authorization'' \<longrightarrow> CanonicalMIMEHeaderKey k \<noteq> ''Authorization''"
  shows "req_Header req ''Authorization'' = Some [v]
         \<and> Header_Get (req_Header req) ''Authorization'' = v"
proof -
  let ?hs = "RequestParams.Headers params"
  from NewRequestWithContext_Header [OF assms(2)] assms(1)
  obtain h0 where h: "req_Header req = fold (\<lambda>(key, v) h. Header_Set h key v) ?hs h0"
    by (auto simp: Let_def)
  have "\<forall>(k, v') \<in> set ?hs. CanonicalMIMEHeaderKey k = ''Authorization'' \<longrightarrow> v' = v"
  proof (clarify)
    fix k v' assume kv: "(k, v') \<in> set ?hs"
      and c: "CanonicalMIMEHeaderKey k = ''Authorization''"
    with assms(5) have "k = ''Authorization''" by auto
    with kv assms(3,4) show "v' = v" by (meson eq_key_imp_eq_value)
  qed
  moreover from assms(4)
  have "\<exists>(k, v') \<in> set ?hs. CanonicalMIMEHeaderKey k = ''Authorization''"
    using Canonical_Authorization by auto
  ultimately have "req_Header req ''Authorization'' = Some [v]"
    unfolding h by (rule fold_Header_Set_agree)
  then show ?thesis by (simp add: Header_Get_def Canonical_Authorization)
qed

theorem caller_Authorization_kept_witness:
  "\<exists>req. NewRequestWithContext example_lib
            (example_params\<lparr>RequestParams.Headers :=
                              [(''Authorization'', ''Basic abc''), (''Accept'', ''*/*'')],
                            Bearer := []\<rparr>) None = Inr req
         \<and> req_Header req ''Authorization'' = Some [''Basic abc'']
         \<and> Header_Get (req_Header req) ''Authorization'' = ''Basic abc''"
proof -
  let ?p = "example_params\<lparr>RequestParams.Headers :=
                              [(''Authorization'', ''Basic abc''), (''Accept'', ''*/*'')],
                            Bearer := []\<rparr>"
  obtain req where r: "NewRequestWithContext example_lib ?p None = Inr req"
    using example_request by blast
  have "req_Header req ''Authorization'' = Some [''Basic abc'']
         \<and> Header_Get (req_Header req) ''Authorization'' = ''Basic abc''"
    by (rule caller_Authorization_kept [OF _ r]) (simp_all add: Canonical_Accept)
  with r show ?thesis by blast
qed

text \<open>
  Claim C10 as it is written fails: \<^verbatim>\<open>Header.Set\<close> puts a key in its canonical form, so the
  entries \<open>Authorization\<close> and \<open>authorization\<close> of one map are the same header, and when
  the range reaches the second after the first, the request carries \<open>b\<close> where the
  caller's entry \<open>Authorization\<close> is \<open>a\<close>.
\<close>

theorem caller_Authorization_overwritten:
  "Bearer (example_params\<lparr>RequestParams.Headers :=
                            [(''Authorization'', ''a''), (''authorization'', ''b'')],
                          Bearer := []\<rparr>) = []
   \<and> NewRequestWithContext example_lib
       (example_params\<lparr>RequestParams.Headers :=
                         [(''Authorization'', ''a''), (''authorization'', ''b'')],
                       Bearer := []\<rparr>) None
     = Inr \<lparr>req_Method = ''POST'',
            req_URL = \<lparr>SchemeHost = ''https://graph.facebook.com'',
                       Path = ''/v15.0/123/messages'', RawQuery = []\<rparr>,
            req_Header = [''Authorization'' \<mapsto> [''b'']],
            req_Body = None\<rparr>
   \<and> Header_Get [''Authorization'' \<mapsto> [''b'']] ''Authorization'' = ''b''"
  by (simp add: example_request Header_Set_def Header_Get_def Canonical_Authorization
      Canonical_authorization)

section \<open>The dispatcher\<close>

lemma example_bodies_valid: "json_Valid example_error_body" "json_Valid example_success_body"
  by code_simp+

lemma example_bodies_nonempty: "example_error_body \<noteq> []" "example_success_body \<noteq> []"
  by (simp_all add: example_error_body_def example_success_body_def)

text \<open>
  What \<open>Client_Do\<close> returns. A response that it returns has a body. A response of the
  round trip that has a body is returned as it is; one without a body is returned with
  a body of no bytes, unless its content length makes it an error.
\<close>

lemma Client_Do_body_present:
  assumes "Client_Do client req = Inr resp"
  shows "resp_Body resp \<noteq> None"
  using assms by (auto simp: Client_Do_def split: sum.splits if_splits)

lemma Client_Do_body_kept:
  assumes "client req = Inr resp" and "resp_Body resp = Some body"
  shows "Client_Do client req = Inr resp"
  using assms by (simp add: Client_Do_def)

lemma Client_Do_nil_body:
  assumes "client req = Inr resp" and "resp_Body resp = None"
    and "resp_ContentLength resp \<le> 0 \<or> req_Method req = ''HEAD''"
  shows "Client_Do client req = Inr (resp\<lparr>resp_Body := Some (Inr [])\<rparr>)"
  using assms by (auto simp: Client_Do_def)

lemma Client_Do_nil_body_error:
  assumes "client req = Inr resp" and "resp_Body resp = None"
    and "resp_ContentLength resp > 0" and "req_Method req \<noteq> ''HEAD''"
  shows "Client_Do client req = Inl nil_Body_error"
  using assms by (simp add: Client_Do_def)

text \<open>
  The errors of the request builder wrap an error of a library.
\<close>

lemma NewRequestWithContext_error:
  assumes "NewRequestWithContext lib params payload = Inl err"
  shows "\<exists>msg e. err = Wrapf msg e"
  using assms unfolding NewRequestWithContext_def Let_def
  by (auto split: sum.splits if_splits)

text \<open>
  Claim C3. When the transport returns a response with a status other than 200 whose
  body is read and decodes into the error structure, \<open>Send\<close> returns no \<open>Response\<close> but
  the decoded \<open>ErrorResponse\<close> as its error, with \<open>Code\<close> set to the status of the
  response, whatever code the decoding gave it.
\<close>

theorem Send_structured_error:
  assumes "NewRequestWithContext lib params payload = Inr req"
    and "client req = Inr resp"
    and "resp_Body resp = Some (Inr bodybytes)"
    and "resp_StatusCode resp \<noteq> 200"
    and "unmarshal_ErrorResponse lib bodybytes = Inr errResponse"
  shows "result (Send lib client params payload)
           = Inl (Api (errResponse\<lparr>Code := resp_StatusCode resp\<rparr>))"
  using assms by (simp add: Send_def Client_Do_def)

text \<open>
  A response 400 with the example error body: the example library decodes it with the
  code 190, and \<open>Send\<close> returns it with the code 400.
\<close>

theorem Send_structured_error_witness:
  "result (Send example_lib (example_client 400 (Some (Inr example_error_body))) example_params None)
     = Inl (Api \<lparr>Code = 400, Err = example_error_body\<rparr>)"
proof -
  let ?resp = "\<lparr>resp_StatusCode = 400,
                resp_ContentLength = int (length example_error_body),
                resp_Header = [''Content-Type'' \<mapsto> [''application/json'']],
                resp_Body = Some (Inr example_error_body)\<rparr>"
  obtain req where r: "NewRequestWithContext example_lib example_params None = Inr req"
    using example_request_plain by blast
  have c: "example_client 400 (Some (Inr example_error_body)) req = Inr ?resp"
    by (simp add: example_client_def)
  have b: "resp_Body ?resp = Some (Inr example_error_body)" and s: "resp_StatusCode ?resp \<noteq> 200"
    by simp_all
  have u: "unmarshal_ErrorResponse example_lib example_error_body
             = Inr \<lparr>Code = 190, Err = example_error_body\<rparr>"
    by (simp add: example_lib_def example_bodies_valid example_bodies_nonempty)
  from Send_structured_error
    [where client = "example_client 400 (Some (Inr example_error_body))", OF r c b s u]
  show ?thesis by simp
qed

text \<open>
  Claim C6. When the transport returns a response with status 200 whose body is read
  and decodes into the message structure, \<open>Send\<close> returns, with no error, a \<open>Response\<close>
  that holds the status 200, the headers of the transport's response and the decoded
  message.
\<close>

theorem Send_success:
  assumes "NewRequestWithContext lib params payload = Inr req"
    and "client req = Inr resp"
    and "resp_Body resp = Some (Inr bodybytes)"
    and "resp_StatusCode resp = 200"
    and "decode_ResponseMessage lib bodybytes = Inr message"
  shows "result (Send lib client params payload)
           = Inr \<lparr>StatusCode = 200, Response.Headers = resp_Header resp, Response.Message = message\<rparr>"
  using assms by (simp add: Send_def Client_Do_def)

theorem Send_success_witness:
  "result (Send example_lib (example_client 200 (Some (Inr example_success_body)))
             example_params (Some ''{}''))
     = Inr \<lparr>StatusCode = 200,
            Response.Headers = [''Content-Type'' \<mapsto> [''application/json'']],
            Response.Message = example_success_body\<rparr>"
proof -
  let ?resp = "\<lparr>resp_StatusCode = 200,
                resp_ContentLength = int (length example_success_body),
                resp_Header = [''Content-Type'' \<mapsto> [''application/json'']],
                resp_Body = Some (Inr example_success_body)\<rparr>"
  obtain req where r: "NewRequestWithContext example_lib example_params (Some ''{}'') = Inr req"
    using example_request_plain by blast
  have c: "example_client 200 (Some (Inr example_success_body)) req = Inr ?resp"
    by (simp add: example_client_def)
  have b: "resp_Body ?resp = Some (Inr example_success_body)" and s: "resp_StatusCode ?resp = 200"
    by simp_all
  have d: "decode_ResponseMessage example_lib example_success_body = Inr example_success_body"
    by (simp add: example_lib_def example_bodies_valid example_bodies_nonempty)
  from Send_success
    [where client = "example_client 200 (Some (Inr example_success_body))", OF r c b s d]
  show ?thesis by simp
qed

text \<open>
  Claim C4 does not hold of the code. The test \<^verbatim>\<open>resp.Body == nil\<close> of \<open>Send\<close> is never
  true: when the round trip gives a response without a body, \<open>Client_Do\<close> has put a
  body of no bytes in its place before \<open>Send\<close> sees the response. \<open>Send\<close> then hands
  the empty text to the decoder that the status selects and returns what the decoder
  gives, as it does for a body that is there and has no bytes: not the error
  \<open>empty response body\<close>.
\<close>

theorem Send_nil_body_decoded:
  assumes "NewRequestWithContext lib params payload = Inr req"
    and "client req = Inr resp"
    and "resp_Body resp = None"
    and "resp_ContentLength resp \<le> 0 \<or> req_Method req = ''HEAD''"
  shows "result (Send lib client params payload)
           = (if resp_StatusCode resp \<noteq> 200 then
                (case unmarshal_ErrorResponse lib [] of
                   Inl err \<Rightarrow> Inl (Lib err)
                 | Inr errResponse \<Rightarrow> Inl (Api (errResponse\<lparr>Code := resp_StatusCode resp\<rparr>)))
              else
                (case decode_ResponseMessage lib [] of
                   Inl err \<Rightarrow> Inl (Lib err)
                 | Inr message \<Rightarrow>
                     Inr \<lparr>StatusCode = resp_StatusCode resp,
                          Response.Headers = resp_Header resp,
                          Response.Message = message\<rparr>))
         \<and> result (Send lib client params payload) \<noteq> Inl (Errorf ''empty response body'')"
  using assms by (auto simp: Send_def Client_Do_def split: sum.splits)

text \<open>
  A round trip that answers the example request with the status 200 and no body: \<open>Send\<close>
  returns the error \<^verbatim>\<open>EOF\<close> of the decoder.
\<close>

theorem Send_nil_body_decoded_witness:
  "result (Send example_lib (example_client 200 None) example_params None) = Inl (Lib ''EOF'')
   \<and> result (Send example_lib (example_client 200 None) example_params None)
     \<noteq> Inl (Errorf ''empty response body'')"
proof -
  let ?resp = "\<lparr>resp_StatusCode = 200,
                resp_ContentLength = 0,
                resp_Header = [''Content-Type'' \<mapsto> [''application/json'']],
                resp_Body = None\<rparr>"
  obtain req where r: "NewRequestWithContext example_lib example_params None = Inr req"
    using example_request_plain by blast
  have c: "example_client 200 None req = Inr ?resp"
    by (simp add: example_client_def)
  have b: "resp_Body ?resp = None"
    and l: "resp_ContentLength ?resp \<le> 0 \<or> req_Method req = ''HEAD''"
    by simp_all
  from Send_nil_body_decoded [where client = "example_client 200 None", OF r c b l]
  show ?thesis by (simp add: example_lib_def)
qed

text \<open>
  The same holds of every call: no response without a body is told from one with a
  body of no bytes, a response without a body that declares a content length is the
  error of \<open>Client_Do\<close>, and no call at all returns the error \<open>empty response body\<close>.
\<close>

lemma Send_nil_body_like_empty_body:
  assumes "NewRequestWithContext lib params payload = Inr req"
    and "client req = Inr resp"
    and "resp_Body resp = None"
    and "resp_ContentLength resp \<le> 0 \<or> req_Method req = ''HEAD''"
  shows "Send lib client params payload
           = Send lib (\<lambda>r. Inr (resp\<lparr>resp_Body := Some (Inr [])\<rparr>)) params payload"
  using assms by (auto simp: Send_def Client_Do_def)

lemma Send_nil_body_content_length:
  assumes "NewRequestWithContext lib params payload = Inr req"
    and "client req = Inr resp"
    and "resp_Body resp = None"
    and "resp_ContentLength resp > 0" and "req_Method req \<noteq> ''HEAD''"
  shows "Send lib client params payload
           = \<lparr>result = Inl (Lib nil_Body_error), sent = [req], closes = 0\<rparr>"
  using assms by (simp add: Send_def Client_Do_def)

lemma Send_never_empty_response_body:
  "result (Send lib client params payload) \<noteq> Inl (Errorf ''empty response body'')"
proof (cases "NewRequestWithContext lib params payload")
  case (Inl err)
  then show ?thesis
    using NewRequestWithContext_error [OF Inl] by (auto simp: Send_def)
next
  case (Inr req)
  show ?thesis
  proof (cases "Client_Do client req")
    case (Inl err)
    with Inr show ?thesis by (simp add: Send_def)
  next
    case r: (Inr resp)
    from Client_Do_body_present [OF r] obtain body where "resp_Body resp = Some body"
      by blast
    with Inr r show ?thesis by (auto simp: Send_def split: sum.splits)
  qed
qed

text \<open>
  Claim C5. Once \<open>Client_Do\<close> has returned a response to \<open>Send\<close>, the body of the
  response is closed exactly once and the call does not panic, whichever way it ends:
  with the \<open>Response\<close>, the structured error, a failed read, or a failed decoding on
  either branch, which is also how a response without a body ends.
\<close>

theorem Send_body_released_once:
  assumes "NewRequestWithContext lib params payload = Inr req"
    and "Client_Do client req = Inr resp"
  shows "closes (Send lib client params payload) = 1
         \<and> (\<forall>msg. result (Send lib client params payload) \<noteq> Inl (Panic msg))"
proof -
  from Client_Do_body_present [OF assms(2)] obtain body where "resp_Body resp = Some body"
    by blast
  with assms show ?thesis by (auto simp: Send_def split: sum.splits)
qed

text \<open>
  A round trip that answers the example request with the status 503 and no body: the
  body that \<open>Client_Do\<close> has put in is closed once, and \<open>Send\<close> returns the error of
  decoding no bytes.
\<close>

theorem Send_body_released_once_witness:
  "closes (Send example_lib (example_client 503 None) example_params (Some ''{}'')) = 1
   \<and> (\<forall>msg. result (Send example_lib (example_client 503 None) example_params (Some ''{}''))
              \<noteq> Inl (Panic msg))"
proof -
  let ?resp = "\<lparr>resp_StatusCode = 503,
                resp_ContentLength = 0,
                resp_Header = [''Content-Type'' \<mapsto> [''application/json'']],
                resp_Body = None\<rparr>"
  obtain req where r: "NewRequestWithContext example_lib example_params (Some ''{}'') = Inr req"
    using example_request_plain by blast
  have c: "example_client 503 None req = Inr ?resp"
    by (simp add: example_client_def)
  have d: "Client_Do (example_client 503 None) req = Inr (?resp\<lparr>resp_Body := Some (Inr [])\<rparr>)"
    by (rule Client_Do_nil_body [where client = "example_client 503 None", OF c]) simp_all
  from Send_body_released_once [where client = "example_client 503 None", OF r d]
  show ?thesis by simp
qed

text \<open>
  The paths of the claim, at the example request: each ends with the body closed once.
  Before \<open>Client_Do\<close> has returned a response there is no body to close, and no call of
  \<open>Send\<close> panics.
\<close>

lemma html_invalid: "\<not> json_Valid ''<html>''"
  by code_simp

lemma example_decoders:
  "decode_ResponseMessage example_lib b =
     (if b = [] then Inl ''EOF'' else if json_Valid b then Inr b else Inl ''invalid JSON'')"
  "unmarshal_ErrorResponse example_lib b =
     (if b = [] then Inl ''unexpected end of JSON input''
      else if json_Valid b then Inr \<lparr>Code = 190, Err = b\<rparr> else Inl ''invalid JSON'')"
  by (simp_all add: example_lib_def)

lemma Send_paths:
  "result (Send example_lib (example_client 200 (Some (Inr example_success_body))) example_params None)
     = Inr \<lparr>StatusCode = 200,
            Response.Headers = [''Content-Type'' \<mapsto> [''application/json'']],
            Response.Message = example_success_body\<rparr>
   \<and> closes (Send example_lib (example_client 200 (Some (Inr example_success_body))) example_params None) = 1"
  "result (Send example_lib (example_client 400 (Some (Inr example_error_body))) example_params None)
     = Inl (Api \<lparr>Code = 400, Err = example_error_body\<rparr>)
   \<and> closes (Send example_lib (example_client 400 (Some (Inr example_error_body))) example_params None) = 1"
  "result (Send example_lib (example_client 200 (Some (Inl ''unexpected EOF''))) example_params None)
     = Inl (Lib ''unexpected EOF'')
   \<and> closes (Send example_lib (example_client 200 (Some (Inl ''unexpected EOF''))) example_params None) = 1"
  "result (Send example_lib (example_client 200 (Some (Inr ''<html>''))) example_params None)
     = Inl (Lib ''invalid JSON'')
   \<and> closes (Send example_lib (example_client 200 (Some (Inr ''<html>''))) example_params None) = 1"
  "result (Send example_lib (example_client 503 (Some (Inr ''<html>''))) example_params None)
     = Inl (Lib ''invalid JSON'')
   \<and> closes (Send example_lib (example_client 503 (Some (Inr ''<html>''))) example_params None) = 1"
  "result (Send example_lib (example_client 503 (Some (Inr []))) example_params None)
     = Inl (Lib ''unexpected end of JSON input'')
   \<and> closes (Send example_lib (example_client 503 (Some (Inr []))) example_params None) = 1"
  "result (Send example_lib (example_client 503 None) example_params None)
     = Inl (Lib ''unexpected end of JSON input'')
   \<and> closes (Send example_lib (example_client 503 None) example_params None) = 1"
  by (simp_all add: Send_def Client_Do_def example_request_plain example_client_def example_decoders
      example_bodies_valid example_bodies_nonempty html_invalid)

lemma Send_no_response_nothing_closed:
  assumes "NewRequestWithContext lib params payload = Inl err \<or>
           (\<exists>req err. NewRequestWithContext lib params payload = Inr req \<and> Client_Do client req = Inl err)"
  shows "closes (Send lib client params payload) = 0"
  using assms by (auto simp: Send_def)

lemma Send_never_panics:
  "result (Send lib client params payload) \<noteq> Inl (Panic msg)"
proof (cases "NewRequestWithContext lib params payload")
  case (Inl err)
  then show ?thesis
    using NewRequestWithContext_error [OF Inl] by (auto simp: Send_def)
next
  case (Inr req)
  show ?thesis
  proof (cases "Client_Do client req")
    case (Inl err)
    with Inr show ?thesis by (simp add: Send_def)
  next
    case r: (Inr resp)
    from Client_Do_body_present [OF r] obtain body where "resp_Body resp = Some body"
      by blast
    with Inr r show ?thesis by (auto simp: Send_def split: sum.splits)
  qed
qed

section \<open>The reply builder: the options\<close>

text \<open>
  Claim C9. Called with \<^verbatim>\<open>nil\<close> options, \<open>Reply\<close> returns the error
  \<open>options cannot be nil\<close> and has done nothing else: whatever the libraries and the
  transport are, no request was sent and nothing was closed, and the result does not depend
  on a payload.
\<close>

theorem Reply_nil_options:
  "Reply lib client params None
     = \<lparr>result = Inl (Errorf ''options cannot be nil''), sent = [], closes = 0\<rparr>"
  by (simp add: Reply_def)

section \<open>The path of the request URL\<close>

text \<open>
  The joined path on some base paths and elements, as \<^verbatim>\<open>url.JoinPath\<close> gives it: a
  relative result for a base URL without a path, no way out of the root, one trailing
  slash kept.
\<close>

lemma JoinPath_path_examples:
  "JoinPath_path [] [''go''] = ''go''"
  "JoinPath_path ''/a/b/c'' [''../../../go''] = ''/go''"
  "JoinPath_path ''/'' [''../go''] = ''/go''"
  "JoinPath_path ''//'' [''/go'', ''a'', ''b'', ''c''] = ''/go/a/b/c''"
  "JoinPath_path [] [''go/''] = ''go/''"
  "JoinPath_path [] [''go//''] = ''go/''"
  "JoinPath_path ''/a/b'' [''/go''] = ''/a/b/go''"
  "JoinPath_path ''a'' [''../../b''] = ''b''"
  by code_simp+


























section \<open>The text of an encoded string is a string literal\<close>

text \<open>
  Whatever bytes a Go string holds, the scanner reads what \<open>appendString\<close> writes for it
  as the inside of one string literal: a byte copied as it is does not end the literal, an
  escape is one the scanner knows, and the bytes of a multi-byte rune are all above the
  ASCII range.
\<close>

lemma step_inString_plain:
  assumes "0x20 \<le> byte c" and \<open>c \<noteq> CHR ''"''\<close> and "c \<noteq> backslash"
  shows "checkValid_loop (inString ps) (c # rest) = checkValid_loop (inString ps) rest"
  using assms by (simp add: scanner_step_def)

lemma byte_high_not_special:
  assumes "0x80 \<le> byte c"
  shows "0x20 \<le> byte c" and \<open>c \<noteq> CHR ''"''\<close> and "c \<noteq> backslash"
  using assms by (auto simp: byte_def backslash_def)

lemma steps_inString_high:
  assumes "\<forall>c \<in> set bs. 0x80 \<le> byte c"
  shows "checkValid_loop (inString ps) (bs @ rest) = checkValid_loop (inString ps) rest"
  using assms
proof (induction bs)
  case Nil
  then show ?case by simp
next
  case (Cons c cs)
  then have "0x80 \<le> byte c" by simp
  from step_inString_plain [OF byte_high_not_special [OF this]] Cons show ?case by simp
qed

lemma hex_digits: "list_all isHexDigit ''0123456789abcdef''"
  by code_simp

lemma isHexDigit_hex: "isHexDigit (hex n)"
proof -
  have "n mod 16 < length ''0123456789abcdef''" by simp
  with hex_digits show ?thesis
    unfolding hex_def list_all_length by blast
qed

lemma steps_inString_escape:
  assumes "byte b < 0x80" and "\<not> htmlSafeSet b"
  shows "checkValid_loop (inString ps) (escapeByte b @ rest) = checkValid_loop (inString ps) rest"
  using isHexDigit_hex [of "byte b div 16"] isHexDigit_hex [of "byte b mod 16"]
  by (simp add: escapeByte_def scanner_step_def continue_with_def backslash_def isHexDigit_def
      isDigit_def byte_def)

lemma decode_high:
  assumes "0x80 \<le> byte b"
    and "DecodeRuneInString (take 4 (b # src)) = (c, n)"
    and "\<not> (c = RuneError \<and> n = 1)"
  shows "\<forall>x \<in> set (take (n - 1) src). 0x80 \<le> byte x"
proof -
  consider "src = []" | x1 where "src = [x1]" | x1 x2 where "src = [x1, x2]"
    | x1 x2 x3 rest where "src = x1 # x2 # x3 # rest"
    by (metis list.exhaust)
  then show ?thesis
  proof cases
    case 1
    with assms show ?thesis by simp
  next
    case 2
    with assms show ?thesis
      by (auto simp: DecodeRuneInString_def utf8_first_def continuation_def
          split: option.splits if_splits)
  next
    case 3
    with assms show ?thesis
      by (auto simp: DecodeRuneInString_def utf8_first_def continuation_def
          split: option.splits if_splits)
  next
    case 4
    with assms show ?thesis
      by (auto simp: DecodeRuneInString_def utf8_first_def continuation_def
          split: option.splits if_splits)
  qed
qed

lemma steps_inString_ufffd:
  "checkValid_loop (inString ps) (backslash # ''ufffd'' @ rest) = checkValid_loop (inString ps) rest"
  by (simp add: scanner_step_def continue_with_def backslash_def isHexDigit_def isDigit_def byte_def)

lemma steps_inString_u202:
  "checkValid_loop (inString ps) (backslash # ''u202'' @ [hex k] @ rest)
     = checkValid_loop (inString ps) rest"
  using isHexDigit_hex [of k]
  by (simp add: scanner_step_def continue_with_def backslash_def isHexDigit_def isDigit_def byte_def)

lemma steps_appendString_loop:
  "checkValid_loop (inString ps) (appendString_loop src @ rest) = checkValid_loop (inString ps) rest"
proof (induction src arbitrary: rest rule: appendString_loop.induct)
  case 1
  then show ?case by simp
next
  case (2 b src)
  let ?run = "checkValid_loop (inString ps)"
  show ?case
  proof (cases "byte b < 0x80")
    case True
    let ?tail = "appendString_loop src @ rest"
    have ih: "?run ?tail = ?run rest"
      using True by (rule "2.IH"(1))
    show ?thesis
    proof (cases "htmlSafeSet b")
      case safe: True
      have "appendString_loop (b # src) @ rest = b # ?tail"
        using True safe by simp
      moreover have "?run (b # ?tail) = ?run ?tail"
        using safe by (intro step_inString_plain) (simp_all add: htmlSafeSet_def)
      ultimately show ?thesis using ih by simp
    next
      case False
      have "appendString_loop (b # src) @ rest = escapeByte b @ ?tail"
        using True False by simp
      moreover have "?run (escapeByte b @ ?tail) = ?run ?tail"
        using True False by (rule steps_inString_escape)
      ultimately show ?thesis using ih by simp
    qed
  next
    case False
    obtain c n where d: "DecodeRuneInString (take 4 (b # src)) = (c, n)"
      by (cases "DecodeRuneInString (take 4 (b # src))")
    note d' = d [symmetric]
    from d have d2: "DecodeRuneInString (b # take 3 src) = (c, n)" by simp
    show ?thesis
    proof (cases "c = RuneError \<and> n = 1")
      case True
      let ?tail = "appendString_loop src @ rest"
      have "appendString_loop (b # src) @ rest = backslash # ''ufffd'' @ ?tail"
        using False True by (simp add: d2)
      moreover have "?run (backslash # ''ufffd'' @ ?tail) = ?run ?tail"
        by (rule steps_inString_ufffd)
      moreover have "?run ?tail = ?run rest"
        using False d' True by (rule "2.IH"(2))
      ultimately show ?thesis by simp
    next
      case inv: False
      let ?tail = "appendString_loop (drop (n - 1) src) @ rest"
      show ?thesis
      proof (cases "c = 0x2028 \<or> c = 0x2029")
        case True
        have "appendString_loop (b # src) @ rest = backslash # ''u202'' @ [hex (c mod 16)] @ ?tail"
          using False inv True by (simp add: d2)
        moreover have "?run (backslash # ''u202'' @ [hex (c mod 16)] @ ?tail) = ?run ?tail"
          by (rule steps_inString_u202)
        moreover have "?run ?tail = ?run rest"
          using False d' inv True by (rule "2.IH"(3))
        ultimately show ?thesis by simp
      next
        case sep: False
        from False have hb: "0x80 \<le> byte b" by simp
        have "appendString_loop (b # src) @ rest = (b # take (n - 1) src) @ ?tail"
          using False inv sep by (simp add: d2)
        moreover have "?run ((b # take (n - 1) src) @ ?tail) = ?run ?tail"
          using decode_high [OF hb d inv] hb by (intro steps_inString_high) simp
        moreover have "?run ?tail = ?run rest"
          using False d' inv sep by (rule "2.IH"(4))
        ultimately show ?thesis by simp
      qed
    qed
  qed
qed

section \<open>The reaction envelope\<close>

lemma appendString_names:
  \<open>appendString ''messaging_product'' = ''"messaging_product"''\<close>
  \<open>appendString ''whatsapp'' = ''"whatsapp"''\<close>
  \<open>appendString ''to'' = ''"to"''\<close>
  \<open>appendString ''type'' = ''"type"''\<close>
  \<open>appendString ''reaction'' = ''"reaction"''\<close>
  \<open>appendString ''message_id'' = ''"message_id"''\<close>
  \<open>appendString ''emoji'' = ''"emoji"''\<close>
  by code_simp+

text \<open>
  The scanner over the fixed parts of the reaction envelope, and over the whole of it.
\<close>

lemmas scanner_steps =
  scanner_step_def run_stateBeginValue_def run_stateBeginString_def run_stateEndValue_def
  run_stateEndTop_def pushParseState_def popParseState_def continue_with_def scanner_error_def
  scanner_eof_def maxNestingDepth_def isSpace_def backslash_def byte_def

lemma scan_React_head:
  \<open>checkValid_loop scanner_reset (''{"messaging_product":"whatsapp","to":"'' @ rest)
     = checkValid_loop (inString [parseObjectValue]) rest\<close>
  by (simp add: scanner_reset_def scanner_steps)

lemma scan_React_middle:
  \<open>checkValid_loop (inString [parseObjectValue])
       (''","type":"reaction","reaction":{"message_id":"'' @ rest)
     = checkValid_loop (inString [parseObjectValue, parseObjectValue]) rest\<close>
  by (simp add: scanner_steps)

lemma scan_React_emoji:
  \<open>checkValid_loop (inString [parseObjectValue, parseObjectValue]) (''","emoji":"'' @ rest)
     = checkValid_loop (inString [parseObjectValue, parseObjectValue]) rest\<close>
  by (simp add: scanner_steps)

lemma scan_React_tail:
  \<open>checkValid_loop (inString [parseObjectValue, parseObjectValue]) ''"}}'' = None\<close>
  by (simp add: scanner_steps)

lemma React_payload_valid:
  \<open>json_Valid
     (''{"messaging_product":"whatsapp","to":'' @ appendString r
      @ '',"type":"reaction","reaction":{"message_id":'' @ appendString m
      @ '',"emoji":'' @ appendString e @ ''}}'')\<close>
proof -
  let ?t3 = \<open>appendString_loop e @ ''"}}''\<close>
  let ?t2 = \<open>appendString_loop m @ ''","emoji":"'' @ ?t3\<close>
  let ?t1 = \<open>appendString_loop r @ ''","type":"reaction","reaction":{"message_id":"'' @ ?t2\<close>
  have \<open>checkValid (''{"messaging_product":"whatsapp","to":"'' @ ?t1) = None\<close>
    unfolding checkValid_def scan_React_head steps_appendString_loop scan_React_middle
      scan_React_emoji scan_React_tail ..
  then show ?thesis
    by (simp add: json_Valid_def appendString_def)
qed

text \<open>
  Claim C8. For every \<open>ReactRequest\<close>, the payload that \<open>React\<close> hands to \<open>Send\<close> is
  the JSON text of an object with exactly four members: \<open>messaging_product\<close> with the
  value \<open>whatsapp\<close>, \<open>to\<close> with the recipient, \<open>type\<close> with the value \<open>reaction\<close> and
  \<open>reaction\<close> with the message id and the emoji. There is no member \<open>recipient_type\<close>.
  Marshalling it cannot fail, and the text is valid JSON whatever bytes the three strings
  hold.
\<close>

theorem React_envelope:
  \<open>let envelope =
         JObject [(''messaging_product'', JString ''whatsapp''),
                  (''to'', JString (ReactRequest.Recipient req)),
                  (''type'', JString ''reaction''),
                  (''reaction'', JObject [(''message_id'', JString (ReactRequest.MessageID req)),
                                          (''emoji'', JString (ReactRequest.Emoji req))])];
       payload =
         ''{"messaging_product":"whatsapp","to":'' @ appendString (ReactRequest.Recipient req)
         @ '',"type":"reaction","reaction":{"message_id":'' @ appendString (ReactRequest.MessageID req)
         @ '',"emoji":'' @ appendString (ReactRequest.Emoji req) @ ''}}''
   in json_Marshal envelope = Inr payload
      \<and> json_Valid payload
      \<and> React lib client params req = Send lib client params (Some payload)\<close>
  using React_payload_valid
  by (simp add: Let_def React_def Message_json_def Reaction_json_def omitempty_string_def
      omitempty_pointer_def appendString_names)

section \<open>The reply payload\<close>

text \<open>
  Claim C1 does not hold of the code. \<open>buildReplyPayload\<close> copies the recipient between
  two double quotes without escaping it: for the recipient \<open>a"b\<close> the payload is not JSON,
  and the scanner of \<^verbatim>\<open>encoding/json\<close> stops at the \<open>b\<close> after the closing quote.
\<close>

theorem Reply_quote_corrupts:
  \<open>(buildReplyPayload
      \<lparr>ReplyParams.Recipient = ''a"b'', Context = ''wamid.X'', MessageType = ''text'',
       Content = JObject [(''body'', JString ''hi'')]\<rparr> :: unit error + string)
     = Inr ''{"messaging_product":"whatsapp","context":{"message_id":"wamid.X"},"to":"a"b","type":"text","text":{"body":"hi"}}''
   \<and> checkValid ''{"messaging_product":"whatsapp","context":{"message_id":"wamid.X"},"to":"a"b","type":"text","text":{"body":"hi"}}''
       = Some (InvalidCharacter (CHR ''b'') ''after object key:value pair'')\<close>
  by code_simp

text \<open>
  The sibling builders marshal the envelope as a whole, which escapes the quote: the
  payload of \<open>SendText\<close> for the same recipient is valid JSON.
\<close>

lemma SendText_quote_escaped:
  \<open>json_Marshal
     (Message_json
        \<lparr>Product = ''whatsapp'', To = ''a"b'', RecipientType = ''individual'', Type = ''text'',
         Text = Some \<lparr>PreviewUrl = False, Body = ''hi''\<rparr>,
         Location = None, Reaction = None, Contacts = None\<rparr>)
   = Inr (''{"messaging_product":"whatsapp","to":"a'' @ [backslash] @ ''"b","recipient_type":"individual","type":"text","text":{"preview_url":false,"body":"hi"}}'')
   \<and> json_Valid (''{"messaging_product":"whatsapp","to":"a'' @ [backslash] @ ''"b","recipient_type":"individual","type":"text","text":{"preview_url":false,"body":"hi"}}'')\<close>
  by code_simp

end
